theory Spec2Isabelle
  imports Complex_Main
begin

section \<open>The image processor component (src/components/ImageProcessor.tsx)\<close>

text \<open>
  The component keeps its data in React state cells and changes them in event handlers.
  Each handler is modelled as a function from the state before the event to the state
  after it; the setters of one handler run in the order of the source, a later setter of
  the same cell winning. What a handler asks of the browser or of the pipeline
  (\<open>URL.createObjectURL\<close>, \<open>new Image()\<close>, \<open>processImage\<close>) is a parameter of the
  model or a part of what it returns.
\<close>

subsection \<open>Numbers\<close>

text \<open>
  A JavaScript number is a finite binary64 value, here the real number it stands for, or
  one of the three non-finite values. The two zeros of JavaScript are one value here; the
  only division of the component divides by a natural width or height, which is never
  the negative zero.
\<close>

datatype jsnum = Fin real | PosInf | NegInf | NaN

text \<open>
  The division and the multiplication of JavaScript round their exact result to the
  nearest binary64 value, a tie going to the even significand (IEEE 754). \<open>fl64\<close> is
  that rounding: \<open>binade\<close> finds the exponent \<open>e\<close> with \<open>2^e \<le> x < 2^(e+1)\<close>, not
  below the least normal exponent -1022, by halving or doubling; the values of that
  binade are the multiples of \<open>2^(e-52)\<close>; a result of magnitude \<open>2^1024\<close> or more is
  infinite.
\<close>

definition pow2 :: "int \<Rightarrow> real" where
  "pow2 e = (if 0 \<le> e then 2 ^ nat e else 1 / 2 ^ nat (- e))"

definition roundTiesToEven :: "real \<Rightarrow> int" where
  "roundTiesToEven x =
     (let f = \<lfloor>x\<rfloor>; r = x - of_int f
      in if r < 1 / 2 then f
         else if 1 / 2 < r then f + 1
         else if even f then f else f + 1)"

fun binade :: "nat \<Rightarrow> int \<Rightarrow> real \<Rightarrow> int" where
  "binade n e x =
     (if n = 0 then e
      else if 2 \<le> x then binade (n - 1) (e + 1) (x / 2)
      else if x < 1 \<and> - 1022 < e then binade (n - 1) (e - 1) (2 * x)
      else e)"

declare binade.simps [simp del]

definition fl64 :: "real \<Rightarrow> jsnum" where
  "fl64 x =
     (if x = 0 then Fin 0
      else if pow2 1024 \<le> \<bar>x\<bar> then (if 0 < x then PosInf else NegInf)
      else
        let q = pow2 (binade 1024 0 \<bar>x\<bar> - 52);
            r = q * of_int (roundTiesToEven (\<bar>x\<bar> / q))
        in if pow2 1024 \<le> r then (if 0 < x then PosInf else NegInf)
           else Fin (if 0 < x then r else - r))"

text \<open>\<open>a / b\<close> on two finite numbers.\<close>

definition js_div :: "real \<Rightarrow> real \<Rightarrow> jsnum" where
  "js_div a b =
     (if b \<noteq> 0 then fl64 (a / b)
      else if a = 0 then NaN
      else if 0 < a then PosInf else NegInf)"

text \<open>\<open>v * r\<close> for a finite \<open>v\<close>.\<close>

fun js_mul :: "real \<Rightarrow> jsnum \<Rightarrow> jsnum" where
  "js_mul v (Fin r) = fl64 (v * r)"
| "js_mul v PosInf = (if v = 0 then NaN else if 0 < v then PosInf else NegInf)"
| "js_mul v NegInf = (if v = 0 then NaN else if 0 < v then NegInf else PosInf)"
| "js_mul v NaN = NaN"

text \<open>
  \<open>Math.round\<close>: the nearest integer, a tie going up. The result is an integer of at
  most the magnitude of a binary64 argument plus one half, and so a binary64 value.
\<close>

fun js_round :: "jsnum \<Rightarrow> jsnum" where
  "js_round (Fin x) = Fin (of_int (round x))"
| "js_round n = n"

text \<open>\<open>n <= 0\<close>: false on \<open>NaN\<close>.\<close>

fun js_le_zero :: "jsnum \<Rightarrow> bool" where
  "js_le_zero (Fin x) = (x \<le> 0)"
| "js_le_zero NegInf = True"
| "js_le_zero PosInf = False"
| "js_le_zero NaN = False"

subsection \<open>Data\<close>

type_synonym blob = "nat list"

record File =
  file_name :: string
  file_type :: string
  file_bytes :: blob

datatype OutputFormat = Jpeg | Png | Webp | Pdf

record Dimensions =
  width :: nat
  height :: nat

record Area =
  area_x :: real
  area_y :: real
  area_width :: real
  area_height :: real

record ProcessedState =
  previewUrl :: string
  filename :: string
  processed_width :: real
  processed_height :: real
  processed_size :: real
  mimeType :: string
  blob :: blob

text \<open>The argument of \<open>processImage\<close> and what it resolves to.\<close>

record ProcessRequest =
  req_file :: File
  req_targetWidth :: jsnum
  req_targetHeight :: jsnum
  req_format :: OutputFormat
  req_quality :: real
  req_cropArea :: "Area option"
  req_originalName :: string

record ProcessResult =
  result_url :: string
  result_filename :: string
  result_width :: real
  result_height :: real
  result_size :: real
  result_mimeType :: string
  result_blob :: blob

text \<open>
  What \<open>processImage\<close> rejects with: an \<open>Error\<close> object carrying a message, or any
  other value.
\<close>

datatype thrown = ErrorObject string | OtherValue

type_synonym processImage = "ProcessRequest \<Rightarrow> thrown + ProcessResult"

text \<open>
  The state cells of the component (\<open>currentFile\<close> is the cell \<open>file\<close> of the
  source), and \<open>revokedUrls\<close>, the object URLs the component has handed back to the
  browser with \<open>URL.revokeObjectURL\<close>.
\<close>

record State =
  currentFile :: "File option"
  imageUrl :: "string option"
  naturalDimensions :: "Dimensions option"
  objectUrlRef :: "string option"
  revokedUrls :: "string list"
  crop :: "real \<times> real"
  zoom :: real
  aspect :: "real option"
  croppedAreaPixels :: "Area option"
  targetWidth :: jsnum
  targetHeight :: jsnum
  maintainAspect :: bool
  quality :: real
  format :: OutputFormat
  isProcessing :: bool
  error :: "string option"
  processed :: "ProcessedState option"

definition initialState :: State where
  "initialState =
     \<lparr>currentFile = None, imageUrl = None, naturalDimensions = None, objectUrlRef = None,
      revokedUrls = [], crop = (0, 0), zoom = 1, aspect = None,
      croppedAreaPixels = None, targetWidth = Fin 0, targetHeight = Fin 0,
      maintainAspect = True, quality = 80, format = Jpeg, isProcessing = False,
      error = None, processed = None\<rparr>"

subsection \<open>Handlers\<close>

definition resetState :: "State \<Rightarrow> State" where
  "resetState s =
     s\<lparr>crop := (0, 0), zoom := 1, aspect := None, croppedAreaPixels := None,
       quality := 80, format := Jpeg, processed := None, error := None\<rparr>"

text \<open>\<open>t.startsWith(p)\<close>\<close>

definition startsWith :: "string \<Rightarrow> string \<Rightarrow> bool" where
  "startsWith t p = (take (length p) t = p)"

text \<open>
  \<open>handleFileChange\<close>: \<open>selected\<close> is \<open>event.target.files?.[0]\<close> and \<open>url\<close> the
  object URL the browser would create for it. The second component of the result is the
  source of the \<open>Image\<close> whose loading the handler starts, if it starts one; its
  \<open>onload\<close> and \<open>onerror\<close> callbacks are \<open>imageOnload\<close> and \<open>imageOnerror\<close>.
  They are events of their own: the handler has returned when one of them fires, and no
  handler withdraws them, so that other events may come in between.
\<close>

definition handleFileChange :: "string \<Rightarrow> File option \<Rightarrow> State \<Rightarrow> State \<times> string option" where
  "handleFileChange url selected s =
     (case selected of
        None \<Rightarrow> (s, None)
      | Some selectedFile \<Rightarrow>
          if \<not> startsWith (file_type selectedFile) ''image/''
             \<and> file_type selectedFile \<noteq> ''application/pdf''
          then (s\<lparr>error := Some ''Please select a valid image or PDF file''\<rparr>, None)
          else
            let s1 = (case objectUrlRef s of
                        None \<Rightarrow> s
                      | Some old \<Rightarrow>
                          if old \<noteq> []
                          then s\<lparr>revokedUrls := old # revokedUrls s, objectUrlRef := None\<rparr>
                          else s);
                s2 = resetState
                       (s1\<lparr>objectUrlRef := Some url, currentFile := Some selectedFile,
                           imageUrl := Some url\<rparr>)
            in if file_type selectedFile = ''application/pdf''
               then (s2\<lparr>error := Some ''PDF import is not supported yet. Please select an image format.'',
                         naturalDimensions := None\<rparr>, None)
               else (s2, Some url))"

definition imageOnload :: "nat \<Rightarrow> nat \<Rightarrow> State \<Rightarrow> State" where
  "imageOnload naturalWidth naturalHeight s =
     s\<lparr>naturalDimensions := Some \<lparr>width = naturalWidth, height = naturalHeight\<rparr>,
       targetWidth := Fin (real naturalWidth),
       targetHeight := Fin (real naturalHeight)\<rparr>"

definition imageOnerror :: "State \<Rightarrow> State" where
  "imageOnerror s =
     s\<lparr>error := Some ''Could not load the selected image.'', naturalDimensions := None\<rparr>"

definition handleWidthChange :: "real \<Rightarrow> State \<Rightarrow> State" where
  "handleWidthChange v s =
     (case naturalDimensions s of
        None \<Rightarrow> s
      | Some d \<Rightarrow>
          let s1 = s\<lparr>targetWidth := Fin v\<rparr>
          in if maintainAspect s
             then let ratio = js_div (real (height d)) (real (width d))
                  in s1\<lparr>targetHeight := js_round (js_mul v ratio)\<rparr>
             else s1)"

definition handleHeightChange :: "real \<Rightarrow> State \<Rightarrow> State" where
  "handleHeightChange v s =
     (case naturalDimensions s of
        None \<Rightarrow> s
      | Some d \<Rightarrow>
          let s1 = s\<lparr>targetHeight := Fin v\<rparr>
          in if maintainAspect s
             then let ratio = js_div (real (width d)) (real (height d))
                  in s1\<lparr>targetWidth := js_round (js_mul v ratio)\<rparr>
             else s1)"

definition onCropComplete :: "Area option \<Rightarrow> State \<Rightarrow> State" where
  "onCropComplete croppedPixels s = s\<lparr>croppedAreaPixels := croppedPixels\<rparr>"

text \<open>The message \<open>handleProcess\<close> shows for what \<open>processImage\<close> rejected with.\<close>

fun thrownMessage :: "thrown \<Rightarrow> string" where
  "thrownMessage (ErrorObject m) = m"
| "thrownMessage OtherValue = ''Something went wrong while processing the image''"

text \<open>
  \<open>handleProcess\<close>, from the click to the end of its \<open>finally\<close> block, with no other
  event in between. The quotient \<open>quality / 100\<close> is the exact one here; the source has
  the binary64 value nearest to it, on which \<open>Math.min\<close> and \<open>Math.max\<close> are exact. The result is the state at the end and the list of the requests
  \<open>processImage\<close> was called with: empty when the handler returned before the call.
\<close>

definition handleProcess :: "processImage \<Rightarrow> State \<Rightarrow> State \<times> ProcessRequest list" where
  "handleProcess processImage s =
     (case (currentFile s, naturalDimensions s) of
        (Some f, Some d) \<Rightarrow>
          if js_le_zero (targetWidth s) \<or> js_le_zero (targetHeight s)
          then (s\<lparr>error := Some ''Please provide valid output dimensions''\<rparr>, [])
          else
            let s1 = s\<lparr>isProcessing := True, error := None\<rparr>;
                qualityValue = min (max (quality s / 100) (1 / 100)) 1;
                request =
                  \<lparr>req_file = f,
                   req_targetWidth = targetWidth s,
                   req_targetHeight = targetHeight s,
                   req_format = format s,
                   req_quality = (if format s = Png then 1 else qualityValue),
                   req_cropArea = croppedAreaPixels s,
                   req_originalName = file_name f\<rparr>
            in (case processImage request of
                  Inr result \<Rightarrow>
                    (s1\<lparr>processed :=
                          Some \<lparr>previewUrl = result_url result,
                                filename = result_filename result,
                                processed_width = result_width result,
                                processed_height = result_height result,
                                processed_size = result_size result,
                                mimeType = result_mimeType result,
                                blob = result_blob result\<rparr>,
                        isProcessing := False\<rparr>, [request])
                | Inl processingError \<Rightarrow>
                    (s1\<lparr>error := Some (thrownMessage processingError),
                        isProcessing := False\<rparr>, [request]))
      | _ \<Rightarrow> (s\<lparr>error := Some ''Upload an image to get started''\<rparr>, []))"

section \<open>The transform pipeline (lib/processImage)\<close>

text \<open>
  Modelled from the spec: the module \<open>lib/processImage\<close> (decoder, geometry resolver,
  resampler, encoder), which the component imports, is not among the sources. The
  definitions of this section follow sections 3, 4.1, 4.2 and 4.3 of the specification.
  Coordinates and scale factors are reals; what the specification leaves to the
  implementation (the platform decoder, the resampling filter) is a parameter.
\<close>

datatype DecodeError = Unsupported | Corrupt

datatype GeometryError = EmptyCrop | InvalidTarget

datatype PipelineError = Decode DecodeError | Geometry GeometryError

type_synonym pixel = "nat \<times> nat \<times> nat \<times> nat"

record SourceImage =
  source_width :: int
  source_height :: int
  source_pixels :: "pixel list"

record CropRect =
  crop_x :: real
  crop_y :: real
  crop_width :: real
  crop_height :: real

record ResolvedPlan =
  plan_crop :: CropRect
  plan_sx :: real
  plan_sy :: real

record PixelBuffer =
  buffer_width :: nat
  buffer_height :: nat
  buffer_pixels :: "pixel list"

type_synonym platformDecoder = "blob \<Rightarrow> string \<Rightarrow> DecodeError + SourceImage"

type_synonym resampleFilter = "SourceImage \<Rightarrow> real \<Rightarrow> real \<Rightarrow> real \<Rightarrow> real \<Rightarrow> pixel"

text \<open>
  Modelled from the spec: the decoder (4.1) hands the bytes to the platform decoder and
  rejects a zero-dimension image; the specification names two errors and does not say
  which one this is, \<open>Corrupt\<close> here.
\<close>

definition decode :: "platformDecoder \<Rightarrow> blob \<Rightarrow> string \<Rightarrow> DecodeError + SourceImage" where
  "decode platform bytes declaredMimeType =
     (case platform bytes declaredMimeType of
        Inl e \<Rightarrow> Inl e
      | Inr img \<Rightarrow>
          if source_width img \<le> 0 \<or> source_height img \<le> 0 then Inl Corrupt
          else Inr img)"

text \<open>
  Modelled from the spec: the clamp policy of the geometry resolver (4.2), the
  intersection of the crop rectangle with the source rectangle.
\<close>

definition clampCrop :: "int \<Rightarrow> int \<Rightarrow> CropRect \<Rightarrow> CropRect" where
  "clampCrop sw sh c =
     (let x0 = max 0 (crop_x c);
          y0 = max 0 (crop_y c);
          x1 = min (of_int sw) (crop_x c + crop_width c);
          y1 = min (of_int sh) (crop_y c + crop_height c)
      in \<lparr>crop_x = x0, crop_y = y0, crop_width = x1 - x0, crop_height = y1 - y0\<rparr>)"

text \<open>
  Modelled from the spec: the geometry resolver (4.2). The specification does not order
  its two errors; the crop is examined first here, as in its text.
\<close>

definition resolve :: "int \<times> int \<Rightarrow> CropRect option \<Rightarrow> int \<times> int \<Rightarrow> GeometryError + ResolvedPlan" where
  "resolve sourceDims cropRect targetDims =
     (let sw = fst sourceDims; sh = snd sourceDims;
          tw = fst targetDims; th = snd targetDims;
          c = (case cropRect of
                 None \<Rightarrow> \<lparr>crop_x = 0, crop_y = 0, crop_width = of_int sw, crop_height = of_int sh\<rparr>
               | Some r \<Rightarrow> clampCrop sw sh r)
      in if crop_width c \<le> 0 \<or> crop_height c \<le> 0 then Inl EmptyCrop
         else if tw \<le> 0 \<or> th \<le> 0 then Inl InvalidTarget
         else Inr \<lparr>plan_crop = c,
                   plan_sx = of_int tw / crop_width c,
                   plan_sy = of_int th / crop_height c\<rparr>)"

text \<open>
  Modelled from the spec: the resampler (4.3). The plan carries the clamped crop and the
  two scale factors only, so the size of the output is the size of the crop scaled by
  them; the pixel at column \<open>i\<close> of row \<open>j\<close> is the filter's colour at the source
  position that the inverse scaling and the crop offset give. The buffer is row-major.
\<close>

definition resample :: "resampleFilter \<Rightarrow> SourceImage \<Rightarrow> ResolvedPlan \<Rightarrow> PixelBuffer" where
  "resample filt src plan =
     (let c = plan_crop plan;
          w = nat (round (plan_sx plan * crop_width c));
          h = nat (round (plan_sy plan * crop_height c))
      in \<lparr>buffer_width = w, buffer_height = h,
          buffer_pixels =
            map (\<lambda>(j, i). filt src (plan_sx plan) (plan_sy plan)
                             (crop_x c + real i / plan_sx plan)
                             (crop_y c + real j / plan_sy plan))
                (List.product [0..<h] [0..<w])\<rparr>)"

text \<open>
  Modelled from the spec: stages 1 to 3 in their order (section 2), a failure of a stage
  ending the request.
\<close>

definition decodeResample ::
  "platformDecoder \<Rightarrow> resampleFilter \<Rightarrow> blob \<Rightarrow> string \<Rightarrow> CropRect option \<Rightarrow> int \<times> int
     \<Rightarrow> PipelineError + PixelBuffer" where
  "decodeResample platform filt bytes declaredMimeType cropRect targetDimensions =
     (case decode platform bytes declaredMimeType of
        Inl e \<Rightarrow> Inl (Decode e)
      | Inr src \<Rightarrow>
          (case resolve (source_width src, source_height src) cropRect targetDimensions of
             Inl e \<Rightarrow> Inl (Geometry e)
           | Inr plan \<Rightarrow> Inr (resample filt src plan)))"

section \<open>Example inputs\<close>

definition exampleFile :: File where
  "exampleFile =
     \<lparr>file_name = ''photo.jpg'', file_type = ''image/jpeg'', file_bytes = [255, 216, 255]\<rparr>"

definition textFile :: File where
  "textFile =
     \<lparr>file_name = ''notes.txt'', file_type = ''text/plain'', file_bytes = [104, 105]\<rparr>"

definition pdfFile :: File where
  "pdfFile =
     \<lparr>file_name = ''scan.pdf'', file_type = ''application/pdf'', file_bytes = [37, 80, 68, 70]\<rparr>"

text \<open>The state after \<open>photo.jpg\<close>, 4000 by 3000 pixels, was selected and has loaded.\<close>

definition loadedState :: State where
  "loadedState =
     imageOnload 4000 3000 (fst (handleFileChange ''blob:1'' (Some exampleFile) initialState))"

text \<open>The state after an image of 1080 by 566 pixels has loaded.\<close>

definition wideState :: State where
  "wideState =
     imageOnload 1080 566 (fst (handleFileChange ''blob:1'' (Some exampleFile) initialState))"

text \<open>The request \<open>handleProcess\<close> builds in \<open>loadedState\<close> for a quality \<open>q\<close>.\<close>

definition exampleRequest :: "real \<Rightarrow> ProcessRequest" where
  "exampleRequest q =
     \<lparr>req_file = exampleFile, req_targetWidth = Fin 4000, req_targetHeight = Fin 3000,
      req_format = Jpeg, req_quality = q, req_cropArea = None,
      req_originalName = ''photo.jpg''\<rparr>"

text \<open>A \<open>processImage\<close> that always rejects, and one whose result shows the quality it got.\<close>

definition failingProcessImage :: processImage where
  "failingProcessImage r = Inl (ErrorObject ''Canvas is empty'')"

definition echoProcessImage :: processImage where
  "echoProcessImage r =
     Inr \<lparr>result_url = ''blob:2'', result_filename = ''photo.jpg'', result_width = 4000,
          result_height = 3000, result_size = req_quality r,
          result_mimeType = ''image/jpeg'', result_blob = []\<rparr>"

definition examplePreview :: ProcessedState where
  "examplePreview =
     \<lparr>previewUrl = ''blob:0'', filename = ''earlier.png'', processed_width = 10,
      processed_height = 20, processed_size = 300, mimeType = ''image/png'', blob = [137, 80]\<rparr>"

text \<open>A source of 2 by 2 pixels, a decoder that yields it, and a filter of one colour.\<close>

definition tinyImage :: SourceImage where
  "tinyImage =
     \<lparr>source_width = 2, source_height = 2,
      source_pixels = [(255, 0, 0, 255), (0, 255, 0, 255), (0, 0, 255, 255), (0, 0, 0, 0)]\<rparr>"

definition constantDecoder :: platformDecoder where
  "constantDecoder bytes declaredMimeType = Inr tinyImage"

definition flatFilter :: resampleFilter where
  "flatFilter src sx sy u v = (0, 0, 0, 255)"

section \<open>Properties\<close>

subsection \<open>Evaluation of the examples\<close>

lemma loadedState_cells:
  "currentFile loadedState = Some exampleFile"
  "naturalDimensions loadedState = Some \<lparr>width = 4000, height = 3000\<rparr>"
  "targetWidth loadedState = Fin 4000"
  "targetHeight loadedState = Fin 3000"
  "croppedAreaPixels loadedState = None"
  "format loadedState = Jpeg"
  "quality loadedState = 80"
  "maintainAspect loadedState"
  "\<not> isProcessing loadedState"
  "processed loadedState = None"
  by (simp_all add: loadedState_def imageOnload_def handleFileChange_def exampleFile_def
        startsWith_def initialState_def resetState_def Let_def)

lemma exampleFile_name: "file_name exampleFile = ''photo.jpg''"
  by (simp add: exampleFile_def)


subsection \<open>The binary64 rounding\<close>

text \<open>
  The search of \<open>binade\<close> ends within its 1024 steps: for a positive \<open>x\<close> below
  \<open>2^1024\<close> it yields the exponent of the binade of \<open>x\<close>, or -1022 below the normal
  numbers, and \<open>fl64 x\<close> is within half a unit of that binade of \<open>x\<close>.
\<close>

lemma pow2_pos: "0 < pow2 e"
  by (simp add: pow2_def)

lemma pow2_Suc: "pow2 (e + 1) = 2 * pow2 e"
proof (cases "0 \<le> e")
  case True
  then show ?thesis by (simp add: pow2_def nat_add_distrib)
next
  case False
  then have "nat (- e) = Suc (nat (- (e + 1)))" by simp
  with False show ?thesis
    by (cases "e + 1 = 0") (simp_all add: pow2_def)
qed

lemma binade_up:
  "1 \<le> x \<Longrightarrow> x < 2 ^ n \<Longrightarrow>
     \<exists>k. binade n e x = e + int k \<and> 2 ^ k \<le> x \<and> x < 2 ^ (Suc k)"
proof (induction n arbitrary: e x)
  case 0
  then show ?case by simp
next
  case (Suc n)
  show ?case
  proof (cases "2 \<le> x")
    case True
    with Suc.prems have "1 \<le> x / 2" "x / 2 < 2 ^ n" by simp_all
    from Suc.IH [OF this, of "e + 1"] obtain k where
      k: "binade n (e + 1) (x / 2) = e + 1 + int k" "2 ^ k \<le> x / 2" "x / 2 < 2 ^ Suc k"
      by blast
    have "binade (Suc n) e x = e + int (Suc k)"
      using True k(1) by (subst binade.simps) simp
    moreover have "2 ^ Suc k \<le> x" "x < 2 ^ Suc (Suc k)" using k(2,3) by simp_all
    ultimately show ?thesis by blast
  next
    case False
    with Suc.prems have "binade (Suc n) e x = e + int 0"
      by (subst binade.simps) simp
    moreover have "2 ^ 0 \<le> x" "x < 2 ^ Suc 0" using False Suc.prems by simp_all
    ultimately show ?thesis by blast
  qed
qed

lemma binade_down:
  "0 < x \<Longrightarrow> x < 1 \<Longrightarrow> - 1022 \<le> e \<Longrightarrow> nat (e + 1022) \<le> n \<Longrightarrow>
     \<exists>k. binade n e x = e - int k \<and> - 1022 \<le> e - int k
         \<and> x * 2 ^ k < 2 \<and> (1 \<le> x * 2 ^ k \<or> e - int k = - 1022)"
proof (induction n arbitrary: e x)
  case 0
  then have "e = - 1022" by simp
  moreover have "binade 0 e x = e - int 0" by (subst binade.simps) simp
  ultimately show ?case using 0 by (intro exI [of _ 0]) simp
next
  case (Suc n)
  show ?case
  proof (cases "- 1022 < e")
    case True
    show ?thesis
    proof (cases "2 * x < 1")
      case small: True
      have "nat (e - 1 + 1022) \<le> n" using Suc.prems True by simp
      from Suc.IH [of "2 * x" "e - 1"] Suc.prems small True this obtain k where
        k: "binade n (e - 1) (2 * x) = e - 1 - int k" "- 1022 \<le> e - 1 - int k"
           "2 * x * 2 ^ k < 2" "1 \<le> 2 * x * 2 ^ k \<or> e - 1 - int k = - 1022"
        by force
      have "binade (Suc n) e x = e - int (Suc k)"
        using Suc.prems True k(1) by (subst binade.simps) simp
      then show ?thesis using k(2-4) by (intro exI [of _ "Suc k"]) (auto simp: algebra_simps)
    next
      case False
      have "binade (Suc n) e x = binade n (e - 1) (2 * x)"
        using Suc.prems True by (subst binade.simps) simp
      also have "\<dots> = e - 1" 
        using False Suc.prems by (subst binade.simps) simp
      finally have "binade (Suc n) e x = e - int 1" by simp
      then show ?thesis using False Suc.prems True by (intro exI [of _ 1]) simp
    qed
  next
    case False
    with Suc.prems have e: "e = - 1022" by simp
    have "binade (Suc n) e x = e - int 0"
      using Suc.prems e by (subst binade.simps) simp
    then show ?thesis using Suc.prems e by (intro exI [of _ 0]) simp
  qed
qed


lemma pow2_of_nat: "pow2 (int k) = 2 ^ k"
  by (simp add: pow2_def)

lemma pow2_minus_nat: "pow2 (- int k) = 1 / 2 ^ k"
  by (cases "k = 0") (simp_all add: pow2_def)

lemma binade_spec:
  assumes "0 < x" and "x < pow2 1024"
  shows "- 1022 \<le> binade 1024 0 x \<and> x < pow2 (binade 1024 0 x + 1)
       \<and> (pow2 (binade 1024 0 x) \<le> x \<or> binade 1024 0 x = - 1022)"
proof (cases "1 \<le> x")
  case True
  from assms(2) have "x < 2 ^ 1024" by (simp add: pow2_def)
  from binade_up [OF True this, of 0] obtain k where
    k: "binade 1024 0 x = int k" "2 ^ k \<le> x" "x < 2 ^ Suc k" by auto
  have "pow2 (int k + 1) = 2 * pow2 (int k)" by (rule pow2_Suc)
  then have "pow2 (binade 1024 0 x + 1) = 2 ^ Suc k" using k(1) by (simp add: pow2_of_nat)
  with k show ?thesis by (simp add: pow2_of_nat)
next
  case False
  with assms(1) binade_down [of x 0 1024] obtain k where
    k: "binade 1024 0 x = - int k" "- 1022 \<le> - int k" "x * 2 ^ k < 2"
       "1 \<le> x * 2 ^ k \<or> - int k = - 1022" by auto
  have "pow2 (- int k + 1) = 2 * pow2 (- int k)" by (rule pow2_Suc)
  then have up: "pow2 (binade 1024 0 x + 1) = 2 / 2 ^ k"
    using k(1) by (simp add: pow2_minus_nat)
  have "x < 2 / 2 ^ k" using k(3) by (simp add: pos_less_divide_eq)
  moreover have "1 \<le> x * 2 ^ k \<Longrightarrow> 1 / 2 ^ k \<le> x" by (simp add: pos_divide_le_eq)
  ultimately show ?thesis using k(1,2,4) up by (auto simp: pow2_minus_nat)
qed

lemma roundTiesToEven_near: "\<bar>of_int (roundTiesToEven y) - y\<bar> \<le> 1 / 2"
  unfolding roundTiesToEven_def Let_def by (auto simp: abs_if) linarith+

lemma fl64_near:
  assumes "fl64 x = Fin r" and "x \<noteq> 0"
  shows "\<bar>r - x\<bar> \<le> pow2 (binade 1024 0 \<bar>x\<bar> - 52) / 2"
proof -
  define q where "q = pow2 (binade 1024 0 \<bar>x\<bar> - 52)"
  define m where "m = q * of_int (roundTiesToEven (\<bar>x\<bar> / q))"
  have q: "0 < q" by (simp add: q_def pow2_pos)
  have "\<bar>m - \<bar>x\<bar>\<bar> = \<bar>q * (of_int (roundTiesToEven (\<bar>x\<bar> / q)) - \<bar>x\<bar> / q)\<bar>"
    using q by (simp add: m_def right_diff_distrib)
  also have "\<dots> = q * \<bar>of_int (roundTiesToEven (\<bar>x\<bar> / q)) - \<bar>x\<bar> / q\<bar>"
    using q by (simp add: abs_mult)
  also have "\<dots> \<le> q * (1 / 2)"
    using q roundTiesToEven_near [of "\<bar>x\<bar> / q"] by (simp only: mult_le_cancel_left_pos)
  finally have near: "\<bar>m - \<bar>x\<bar>\<bar> \<le> q / 2" by simp
  from assms have "r = (if 0 < x then m else - m)"
    by (auto simp: fl64_def Let_def q_def m_def split: if_splits)
  with near assms(2) show ?thesis unfolding q_def [symmetric] by (auto simp: abs_if split: if_splits)
qed

subsection \<open>The size of the resampled buffer\<close>

lemma resample_dims:
  assumes "0 < crop_width (plan_crop p)" and "0 < crop_height (plan_crop p)"
      and "plan_sx p = of_int tw / crop_width (plan_crop p)"
      and "plan_sy p = of_int th / crop_height (plan_crop p)"
  shows "buffer_width (resample filt src p) = nat tw"
    and "buffer_height (resample filt src p) = nat th"
    and "length (buffer_pixels (resample filt src p)) = nat tw * nat th"
  using assms by (simp_all add: resample_def Let_def mult.commute)

lemma resolve_plan:
  assumes "0 < sw" and "0 < sh" and "1 \<le> tw" and "1 \<le> th"
      and "\<forall>c. cropRect = Some c \<longrightarrow>
             0 < crop_width (clampCrop sw sh c) \<and> 0 < crop_height (clampCrop sw sh c)"
  shows "\<exists>p. resolve (sw, sh) cropRect (tw, th) = Inr p
           \<and> 0 < crop_width (plan_crop p) \<and> 0 < crop_height (plan_crop p)
           \<and> plan_sx p = of_int tw / crop_width (plan_crop p)
           \<and> plan_sy p = of_int th / crop_height (plan_crop p)"
  using assms by (cases cropRect) (simp_all add: resolve_def Let_def)

text \<open>
  C1. When the platform decoder yields a source image of positive width and height, the
  target dimensions \<open>(w, h)\<close> are at least 1 each, and the crop rectangle is absent or
  meets the source in a rectangle of positive width and height, decoding and resampling
  succeed with a buffer of width \<open>w\<close> and height \<open>h\<close> holding \<open>w * h\<close> pixels, whatever
  the proportions of the source and of the crop. The scale factors are exact reals here.
\<close>

theorem resample_exact_dimensions:
  assumes "platform bytes declaredMimeType = Inr src"
      and "0 < source_width src" and "0 < source_height src"
      and "1 \<le> w" and "1 \<le> h"
      and "\<forall>c. cropRect = Some c \<longrightarrow>
             0 < crop_width (clampCrop (source_width src) (source_height src) c)
           \<and> 0 < crop_height (clampCrop (source_width src) (source_height src) c)"
  shows "\<exists>buf. decodeResample platform filt bytes declaredMimeType cropRect (w, h) = Inr buf
           \<and> int (buffer_width buf) = w \<and> int (buffer_height buf) = h
           \<and> length (buffer_pixels buf) = nat w * nat h"
proof -
  from assms(2-6) obtain p where
    p: "resolve (source_width src, source_height src) cropRect (w, h) = Inr p"
       "0 < crop_width (plan_crop p)" "0 < crop_height (plan_crop p)"
       "plan_sx p = of_int w / crop_width (plan_crop p)"
       "plan_sy p = of_int h / crop_height (plan_crop p)"
    using resolve_plan by blast
  have run: "decodeResample platform filt bytes declaredMimeType cropRect (w, h)
               = Inr (resample filt src p)"
    using assms(1-3) p(1) by (simp add: decodeResample_def decode_def)
  have "int (buffer_width (resample filt src p)) = w"
    and "int (buffer_height (resample filt src p)) = h"
    using resample_dims(1,2) [OF p(2-5)] assms(4,5) by simp_all
  moreover have "length (buffer_pixels (resample filt src p)) = nat w * nat h"
    using resample_dims(3) [OF p(2-5)] .
  ultimately show ?thesis using run by simp
qed

text \<open>
  At the 2 by 2 source, a crop of 1 by 2 pixels and the target 3 by 1: the tall crop is
  stretched into a wide buffer of three pixels.
\<close>

theorem resample_exact_dimensions_witness:
  "constantDecoder [] ''image/png'' = Inr tinyImage
   \<and> 0 < source_width tinyImage \<and> 0 < source_height tinyImage
   \<and> 0 < crop_width (clampCrop (source_width tinyImage) (source_height tinyImage)
                        \<lparr>crop_x = 0, crop_y = 0, crop_width = 1, crop_height = 2\<rparr>)
   \<and> 0 < crop_height (clampCrop (source_width tinyImage) (source_height tinyImage)
                        \<lparr>crop_x = 0, crop_y = 0, crop_width = 1, crop_height = 2\<rparr>)
   \<and> (\<exists>buf. decodeResample constantDecoder flatFilter [] ''image/png''
               (Some \<lparr>crop_x = 0, crop_y = 0, crop_width = 1, crop_height = 2\<rparr>) (3, 1) = Inr buf
           \<and> int (buffer_width buf) = 3 \<and> int (buffer_height buf) = 1
           \<and> length (buffer_pixels buf) = nat 3 * nat 1)"
  using resample_exact_dimensions
          [where platform = constantDecoder and bytes = "[]"
             and declaredMimeType = "''image/png''" and src = tinyImage
             and w = 3 and h = 1 and filt = flatFilter
             and cropRect = "Some \<lparr>crop_x = 0, crop_y = 0, crop_width = 1, crop_height = 2\<rparr>"]
  by (simp add: constantDecoder_def tinyImage_def clampCrop_def)

subsection \<open>Clamping of the crop rectangle\<close>

text \<open>
  C2. For a source of positive size and target dimensions of at least 1, a crop
  rectangle resolves to its intersection with the source rectangle: the resolved
  rectangle starts at the larger of the two left (top) edges and ends at the smaller of
  the two right (bottom) edges, a point lies in it exactly when it lies in the source
  and in the requested rectangle, so that it is inside both and never larger than the
  request; no error is raised for reaching past the bounds, and \<open>EmptyCrop\<close> is the
  result exactly when the intersection has a width or a height of at most 0. On a
  source at least 10 pixels high, as the example takes it, the rectangle
  \<open>{x: -5, y: 0, width: source.width + 100, height: 10}\<close> resolves to
  \<open>{x: 0, y: 0, width: source.width, height: 10}\<close>.
\<close>

theorem crop_clamped_to_source:
  assumes "0 < sw" and "0 < sh" and "1 \<le> tw" and "1 \<le> th"
  shows "resolve (sw, sh) (Some c) (tw, th)
           = (if crop_width (clampCrop sw sh c) \<le> 0 \<or> crop_height (clampCrop sw sh c) \<le> 0
              then Inl EmptyCrop
              else Inr \<lparr>plan_crop = clampCrop sw sh c,
                        plan_sx = of_int tw / crop_width (clampCrop sw sh c),
                        plan_sy = of_int th / crop_height (clampCrop sw sh c)\<rparr>)
       \<and> crop_x (clampCrop sw sh c) = max 0 (crop_x c)
       \<and> crop_y (clampCrop sw sh c) = max 0 (crop_y c)
       \<and> crop_x (clampCrop sw sh c) + crop_width (clampCrop sw sh c)
           = min (of_int sw) (crop_x c + crop_width c)
       \<and> crop_y (clampCrop sw sh c) + crop_height (clampCrop sw sh c)
           = min (of_int sh) (crop_y c + crop_height c)
       \<and> (\<forall>u v. (crop_x (clampCrop sw sh c) \<le> u
                  \<and> u \<le> crop_x (clampCrop sw sh c) + crop_width (clampCrop sw sh c)
                  \<and> crop_y (clampCrop sw sh c) \<le> v
                  \<and> v \<le> crop_y (clampCrop sw sh c) + crop_height (clampCrop sw sh c))
                = (0 \<le> u \<and> u \<le> of_int sw \<and> 0 \<le> v \<and> v \<le> of_int sh
                   \<and> crop_x c \<le> u \<and> u \<le> crop_x c + crop_width c
                   \<and> crop_y c \<le> v \<and> v \<le> crop_y c + crop_height c))
       \<and> 0 \<le> crop_x (clampCrop sw sh c) \<and> 0 \<le> crop_y (clampCrop sw sh c)
       \<and> crop_x (clampCrop sw sh c) + crop_width (clampCrop sw sh c) \<le> of_int sw
       \<and> crop_y (clampCrop sw sh c) + crop_height (clampCrop sw sh c) \<le> of_int sh
       \<and> crop_x c \<le> crop_x (clampCrop sw sh c)
       \<and> crop_x (clampCrop sw sh c) + crop_width (clampCrop sw sh c) \<le> crop_x c + crop_width c
       \<and> crop_y c \<le> crop_y (clampCrop sw sh c)
       \<and> crop_y (clampCrop sw sh c) + crop_height (clampCrop sw sh c) \<le> crop_y c + crop_height c
       \<and> (10 \<le> sh \<longrightarrow>
            resolve (sw, sh)
              (Some \<lparr>crop_x = - 5, crop_y = 0, crop_width = of_int sw + 100, crop_height = 10\<rparr>)
              (tw, th)
            = Inr \<lparr>plan_crop = \<lparr>crop_x = 0, crop_y = 0, crop_width = of_int sw, crop_height = 10\<rparr>,
                   plan_sx = of_int tw / of_int sw, plan_sy = of_int th / 10\<rparr>)"
  using assms by (auto simp: resolve_def clampCrop_def Let_def)

text \<open>
  At a source of 4000 by 3000 pixels and the target 800 by 600; the requested
  rectangle reaches 5 pixels past the left edge and 95 past the right one.
\<close>

theorem crop_clamped_to_source_witness:
  "(0::int) < 4000 \<and> (0::int) < 3000 \<and> (1::int) \<le> 800 \<and> (1::int) \<le> 600 \<and> (10::int) \<le> 3000
   \<and> resolve (4000, 3000)
        (Some \<lparr>crop_x = - 5, crop_y = 0, crop_width = 4000 + 100, crop_height = 10\<rparr>) (800, 600)
      = Inr \<lparr>plan_crop = \<lparr>crop_x = 0, crop_y = 0, crop_width = 4000, crop_height = 10\<rparr>,
             plan_sx = 800 / 4000, plan_sy = 600 / 10\<rparr>"
  using crop_clamped_to_source
          [where sw = 4000 and sh = 3000 and tw = 800 and th = 600
             and c = "\<lparr>crop_x = - 5, crop_y = 0, crop_width = 4000 + 100, crop_height = 10\<rparr>"]
  by (simp add: clampCrop_def)

subsection \<open>Invalid target dimensions\<close>

text \<open>
  C3. When the target width or the target height is at most 0, \<open>handleProcess\<close> does
  not call \<open>processImage\<close>; and in the state of a request, where a file is selected and
  its natural dimensions are known (the button that calls \<open>handleProcess\<close> is rendered
  only then), its only effect is to set the error
  \<open>Please provide valid output dimensions\<close>.
\<close>

theorem handleProcess_invalid_target:
  assumes "js_le_zero (targetWidth s) \<or> js_le_zero (targetHeight s)"
  shows "snd (handleProcess processImage s) = []
       \<and> (currentFile s \<noteq> None \<and> naturalDimensions s \<noteq> None \<longrightarrow>
            fst (handleProcess processImage s)
              = s\<lparr>error := Some ''Please provide valid output dimensions''\<rparr>)"
  using assms by (auto simp: handleProcess_def split: option.splits)

theorem handleProcess_invalid_target_witness:
  "js_le_zero (targetWidth (loadedState\<lparr>targetWidth := Fin 0\<rparr>))
   \<and> currentFile (loadedState\<lparr>targetWidth := Fin 0\<rparr>) \<noteq> None
   \<and> naturalDimensions (loadedState\<lparr>targetWidth := Fin 0\<rparr>) \<noteq> None
   \<and> handleProcess echoProcessImage (loadedState\<lparr>targetWidth := Fin 0\<rparr>)
       = (loadedState\<lparr>targetWidth := Fin 0,
                      error := Some ''Please provide valid output dimensions''\<rparr>, [])"
  using handleProcess_invalid_target
          [where s = "loadedState\<lparr>targetWidth := Fin 0\<rparr>" and processImage = echoProcessImage]
  by (simp add: loadedState_cells prod_eq_iff)

subsection \<open>The quality passed to the pipeline\<close>

text \<open>
  C4. With a file selected, its natural dimensions known and both target dimensions
  above 0, \<open>handleProcess\<close> calls \<open>processImage\<close> once, with the file, the targets,
  the format and the crop of the state and with the quality
  \<open>min(max(q / 100, 0.01), 1)\<close>, where \<open>q\<close> is the quality of the state, or 1 when the
  format is PNG. That value lies between 0 and 1 for every \<open>q\<close>, and for a format
  other than PNG and \<open>q\<close> between 1 and 100 it is \<open>q / 100\<close>.
\<close>

theorem handleProcess_quality_scale:
  assumes "currentFile s = Some f" and "naturalDimensions s = Some d"
      and "\<not> js_le_zero (targetWidth s)" and "\<not> js_le_zero (targetHeight s)"
  shows "snd (handleProcess processImage s)
           = [\<lparr>req_file = f, req_targetWidth = targetWidth s, req_targetHeight = targetHeight s,
               req_format = format s,
               req_quality =
                 (if format s = Png then 1 else min (max (quality s / 100) (1 / 100)) 1),
               req_cropArea = croppedAreaPixels s, req_originalName = file_name f\<rparr>]
       \<and> 0 \<le> (if format s = Png then 1 else min (max (quality s / 100) (1 / 100)) 1)
       \<and> (if format s = Png then 1 else min (max (quality s / 100) (1 / 100)) 1) \<le> 1
       \<and> (format s \<noteq> Png \<and> 1 \<le> quality s \<and> quality s \<le> 100 \<longrightarrow>
            (if format s = Png then 1 else min (max (quality s / 100) (1 / 100)) 1)
              = quality s / 100)
       \<and> (\<forall>r \<in> set (snd (handleProcess processImage s)).
            req_quality r
              = (if format s = Png then 1 else min (max (quality s / 100) (1 / 100)) 1)
            \<and> 0 \<le> req_quality r \<and> req_quality r \<le> 1)"
  using assms
  by (cases "processImage
               \<lparr>req_file = f, req_targetWidth = targetWidth s,
                req_targetHeight = targetHeight s, req_format = format s,
                req_quality =
                  (if format s = Png then 1 else min (max (quality s / 100) (1 / 100)) 1),
                req_cropArea = croppedAreaPixels s, req_originalName = file_name f\<rparr>")
     (auto simp: handleProcess_def Let_def)

text \<open>At the quality 50 and the format JPEG the one request has the quality 0.5.\<close>

theorem handleProcess_quality_scale_witness:
  "currentFile (loadedState\<lparr>quality := 50\<rparr>) = Some exampleFile
   \<and> naturalDimensions (loadedState\<lparr>quality := 50\<rparr>) = Some \<lparr>width = 4000, height = 3000\<rparr>
   \<and> \<not> js_le_zero (targetWidth (loadedState\<lparr>quality := 50\<rparr>))
   \<and> \<not> js_le_zero (targetHeight (loadedState\<lparr>quality := 50\<rparr>))
   \<and> format (loadedState\<lparr>quality := 50\<rparr>) \<noteq> Png
   \<and> 1 \<le> quality (loadedState\<lparr>quality := 50\<rparr>) \<and> quality (loadedState\<lparr>quality := 50\<rparr>) \<le> 100
   \<and> snd (handleProcess echoProcessImage (loadedState\<lparr>quality := 50\<rparr>))
       = [exampleRequest (1 / 2)]"
  using handleProcess_quality_scale
          [where s = "loadedState\<lparr>quality := 50\<rparr>" and f = exampleFile
             and d = "\<lparr>width = 4000, height = 3000\<rparr>" and processImage = echoProcessImage]
  by (simp add: loadedState_cells exampleFile_name exampleRequest_def)




text \<open>
  C6. With the format PNG the quality of the state has no effect: for any two qualities
  \<open>handleProcess\<close> passes the same request, whose quality is 1, and ends in the same
  state but for the quality cell itself.
\<close>

theorem png_quality_ignored:
  assumes "format s = Png"
  shows "snd (handleProcess processImage (s\<lparr>quality := q1\<rparr>))
           = snd (handleProcess processImage (s\<lparr>quality := q2\<rparr>))
       \<and> (\<forall>r \<in> set (snd (handleProcess processImage (s\<lparr>quality := q1\<rparr>))). req_quality r = 1)
       \<and> fst (handleProcess processImage (s\<lparr>quality := q1\<rparr>))
           = (fst (handleProcess processImage (s\<lparr>quality := q2\<rparr>)))\<lparr>quality := q1\<rparr>"
  using assms by (auto simp: handleProcess_def Let_def split: option.splits sum.splits)

theorem png_quality_ignored_witness:
  "format (loadedState\<lparr>format := Png\<rparr>) = Png
   \<and> snd (handleProcess echoProcessImage (loadedState\<lparr>format := Png, quality := 10\<rparr>))
       = snd (handleProcess echoProcessImage (loadedState\<lparr>format := Png, quality := 100\<rparr>))
   \<and> snd (handleProcess echoProcessImage (loadedState\<lparr>format := Png, quality := 10\<rparr>))
       = [(exampleRequest 1)\<lparr>req_format := Png\<rparr>]"
  using png_quality_ignored
          [where s = "loadedState\<lparr>format := Png\<rparr>" and processImage = echoProcessImage
             and ?q1.0 = 10 and ?q2.0 = 100]
  by (simp add: handleProcess_def loadedState_cells exampleFile_name exampleRequest_def
        echoProcessImage_def Let_def)

subsection \<open>Files that are not images\<close>

text \<open>
  What one selection does. Selecting a file whose type neither starts with \<open>image/\<close>
  nor is \<open>application/pdf\<close> only sets the error
  \<open>Please select a valid image or PDF file\<close>: no image is loaded, and what
  \<open>handleProcess\<close> would pass to \<open>processImage\<close> is what it passed before, a request
  for the file selected earlier. Selecting a file of type \<open>application/pdf\<close> sets the
  error \<open>PDF import is not supported yet. Please select an image format.\<close>, clears
  the natural dimensions and loads no image, and \<open>handleProcess\<close> does not call
  \<open>processImage\<close> in the state that results.
\<close>

lemma handleFileChange_rejection:
  "(\<not> startsWith (file_type f) ''image/'' \<and> file_type f \<noteq> ''application/pdf'' \<longrightarrow>
      handleFileChange url (Some f) s
        = (s\<lparr>error := Some ''Please select a valid image or PDF file''\<rparr>, None)
      \<and> snd (handleProcess processImage (fst (handleFileChange url (Some f) s)))
          = snd (handleProcess processImage s)
      \<and> (\<forall>r \<in> set (snd (handleProcess processImage (fst (handleFileChange url (Some f) s)))).
            currentFile s = Some (req_file r)))
   \<and> (file_type f = ''application/pdf'' \<longrightarrow>
        error (fst (handleFileChange url (Some f) s))
          = Some ''PDF import is not supported yet. Please select an image format.''
        \<and> naturalDimensions (fst (handleFileChange url (Some f) s)) = None
        \<and> snd (handleFileChange url (Some f) s) = None
        \<and> snd (handleProcess processImage (fst (handleFileChange url (Some f) s))) = [])"
  by (auto simp: handleFileChange_def handleProcess_def resetState_def Let_def startsWith_def
           split: option.splits sum.splits if_splits)

text \<open>
  C8. The selection of a PDF does not keep it from the pipeline in every run. The
  handler never withdraws the \<open>onload\<close> callback of an image selected earlier: when
  \<open>photo.jpg\<close> is selected, \<open>scan.pdf\<close> is selected before the photo has loaded, and
  the callback of the photo then fires, the natural dimensions are set again while the
  selected file is the PDF, and \<open>handleProcess\<close> calls \<open>processImage\<close> with the PDF.
\<close>

theorem stale_onload_processes_pdf:
  "file_type pdfFile = ''application/pdf''
   \<and> snd (handleFileChange ''blob:1'' (Some exampleFile) initialState) = Some ''blob:1''
   \<and> naturalDimensions
        (fst (handleFileChange ''blob:2'' (Some pdfFile)
               (fst (handleFileChange ''blob:1'' (Some exampleFile) initialState)))) = None
   \<and> snd (handleProcess echoProcessImage
            (imageOnload 4000 3000
               (fst (handleFileChange ''blob:2'' (Some pdfFile)
                      (fst (handleFileChange ''blob:1'' (Some exampleFile) initialState))))))
       = [\<lparr>req_file = pdfFile, req_targetWidth = Fin 4000, req_targetHeight = Fin 3000,
           req_format = Jpeg, req_quality = 4 / 5, req_cropArea = None,
           req_originalName = ''scan.pdf''\<rparr>]"
  by (simp add: handleProcess_def imageOnload_def handleFileChange_def resetState_def
        initialState_def exampleFile_def pdfFile_def startsWith_def echoProcessImage_def
        Let_def)

subsection \<open>The aspect lock\<close>

lemma wideState_cells:
  "naturalDimensions wideState = Some \<lparr>width = 1080, height = 566\<rparr>"
  "maintainAspect wideState"
  by (simp_all add: wideState_def imageOnload_def handleFileChange_def exampleFile_def
        startsWith_def initialState_def resetState_def Let_def)

lemma fl64_examples:
  "fl64 (3 / 4) = Fin (3 / 4)"
  "fl64 (2403 / 4) = Fin (2403 / 4)"
  "fl64 (283 / 540) = Fin (4720439609429075 / 9007199254740992)"
  "fl64 (1911778041818775375 / 4503599627370496) = Fin (7467882975854591 / 17592186044416)"
  by (simp_all add: fl64_def pow2_def binade.simps roundTiesToEven_def Let_def)

text \<open>
  C9, as amended. With the aspect lock off, \<open>handleWidthChange\<close> changes the target
  width only and \<open>handleHeightChange\<close> the target height only (and nothing at all while
  no image has loaded). With the lock on and an image of natural size \<open>nw\<close> by \<open>nh\<close>
  loaded, \<open>handleWidthChange v\<close> sets the target width to \<open>v\<close> and the target height to
  \<open>Math.round(v * (nh / nw))\<close>, the quotient and the product each rounded to binary64,
  and \<open>handleHeightChange v\<close> does the same with width and height exchanged: the crop
  and the targets before the event do not enter. Where the quotient and the product are
  binary64 values as they stand, the target height is \<open>v * nh / nw\<close> rounded to the
  nearest integer, and likewise for the width.
\<close>

theorem aspect_lock:
  "(\<not> maintainAspect s \<longrightarrow>
      handleWidthChange v s
        = s\<lparr>targetWidth := (if naturalDimensions s = None then targetWidth s else Fin v)\<rparr>
    \<and> handleHeightChange v s
        = s\<lparr>targetHeight := (if naturalDimensions s = None then targetHeight s else Fin v)\<rparr>)
   \<and> (\<forall>d. maintainAspect s \<and> naturalDimensions s = Some d \<longrightarrow>
        handleWidthChange v s
          = s\<lparr>targetWidth := Fin v,
              targetHeight := js_round (js_mul v (js_div (real (height d)) (real (width d))))\<rparr>
      \<and> handleHeightChange v s
          = s\<lparr>targetHeight := Fin v,
              targetWidth := js_round (js_mul v (js_div (real (width d)) (real (height d))))\<rparr>)
   \<and> (\<forall>d. maintainAspect s \<and> naturalDimensions s = Some d \<and> width d \<noteq> 0
          \<and> fl64 (real (height d) / real (width d)) = Fin (real (height d) / real (width d))
          \<and> fl64 (v * (real (height d) / real (width d)))
              = Fin (v * (real (height d) / real (width d))) \<longrightarrow>
        handleWidthChange v s
          = s\<lparr>targetWidth := Fin v,
              targetHeight := Fin (of_int (round (v * real (height d) / real (width d))))\<rparr>)
   \<and> (\<forall>d. maintainAspect s \<and> naturalDimensions s = Some d \<and> height d \<noteq> 0
          \<and> fl64 (real (width d) / real (height d)) = Fin (real (width d) / real (height d))
          \<and> fl64 (v * (real (width d) / real (height d)))
              = Fin (v * (real (width d) / real (height d))) \<longrightarrow>
        handleHeightChange v s
          = s\<lparr>targetHeight := Fin v,
              targetWidth := Fin (of_int (round (v * real (width d) / real (height d))))\<rparr>)"
  by (auto simp: handleWidthChange_def handleHeightChange_def Let_def js_div_def
           split: option.splits)

text \<open>
  At the image of 4000 by 3000 pixels the quotient 0.75 and the product 600.75 are
  binary64 values: the width 801 gives the height 601 with the lock on, and leaves the
  height 3000 with the lock off.
\<close>

theorem aspect_lock_witness:
  "maintainAspect loadedState
   \<and> naturalDimensions loadedState = Some \<lparr>width = 4000, height = 3000\<rparr>
   \<and> fl64 (real 3000 / real 4000) = Fin (real 3000 / real 4000)
   \<and> fl64 (801 * (real 3000 / real 4000)) = Fin (801 * (real 3000 / real 4000))
   \<and> handleWidthChange 801 loadedState
       = loadedState\<lparr>targetWidth := Fin 801, targetHeight := Fin 601\<rparr>
   \<and> \<not> maintainAspect (loadedState\<lparr>maintainAspect := False\<rparr>)
   \<and> handleWidthChange 801 (loadedState\<lparr>maintainAspect := False\<rparr>)
       = loadedState\<lparr>maintainAspect := False, targetWidth := Fin 801\<rparr>
   \<and> targetHeight (handleWidthChange 801 (loadedState\<lparr>maintainAspect := False\<rparr>)) = Fin 3000"
  using aspect_lock [where s = loadedState and v = 801]
        aspect_lock [where s = "loadedState\<lparr>maintainAspect := False\<rparr>" and v = 801]
  by (simp add: loadedState_cells js_div_def fl64_examples round_def)

text \<open>
  At the image of 1080 by 566 pixels and the width 810 the exact value of
  \<open>810 * 566 / 1080\<close> is 424.5, which rounds to 425; the binary64 quotient lies below
  \<open>566 / 1080\<close>, the binary64 product is 424.49999999999994, and the handler sets the
  target height 424.
\<close>

theorem aspect_lock_counterexample:
  "maintainAspect wideState
   \<and> naturalDimensions wideState = Some \<lparr>width = 1080, height = 566\<rparr>
   \<and> targetHeight (handleWidthChange 810 wideState) = Fin 424
   \<and> Fin (of_int (round (810 * real 566 / real 1080))) = Fin 425
   \<and> Fin 424 \<noteq> Fin 425"
  by (simp add: handleWidthChange_def wideState_cells js_div_def fl64_examples round_def)

subsection \<open>Failure of the pipeline\<close>

text \<open>
  C10. When \<open>processImage\<close> is called and rejects, \<open>handleProcess\<close> ends in the state
  it started from with the error set to the message and \<open>isProcessing\<close> false: the
  stored result is as before. Whenever \<open>processImage\<close> is called, whether it resolves
  or rejects, \<open>isProcessing\<close> is false at the end. When \<open>handleProcess\<close> returns
  without the call, \<open>isProcessing\<close> and the stored result are as before.
\<close>

theorem handleProcess_atomic:
  "(\<forall>r e. snd (handleProcess processImage s) = [r] \<and> processImage r = Inl e \<longrightarrow>
       fst (handleProcess processImage s)
         = s\<lparr>isProcessing := False, error := Some (thrownMessage e)\<rparr>)
   \<and> (snd (handleProcess processImage s) \<noteq> [] \<longrightarrow>
        \<not> isProcessing (fst (handleProcess processImage s)))
   \<and> (snd (handleProcess processImage s) = [] \<longrightarrow>
        isProcessing (fst (handleProcess processImage s)) = isProcessing s
        \<and> processed (fst (handleProcess processImage s)) = processed s)"
  by (auto simp: handleProcess_def Let_def split: option.splits sum.splits)

theorem handleProcess_atomic_witness:
  "snd (handleProcess failingProcessImage (loadedState\<lparr>processed := Some examplePreview\<rparr>))
     = [exampleRequest (4 / 5)]
   \<and> failingProcessImage (exampleRequest (4 / 5)) = Inl (ErrorObject ''Canvas is empty'')
   \<and> fst (handleProcess failingProcessImage (loadedState\<lparr>processed := Some examplePreview\<rparr>))
       = loadedState\<lparr>processed := Some examplePreview, isProcessing := False,
                     error := Some ''Canvas is empty''\<rparr>
   \<and> processed (fst (handleProcess failingProcessImage
                       (loadedState\<lparr>processed := Some examplePreview\<rparr>)))
       = Some examplePreview"
  using handleProcess_atomic
          [where processImage = failingProcessImage
             and s = "loadedState\<lparr>processed := Some examplePreview\<rparr>"]
  by (simp add: handleProcess_def loadedState_cells exampleFile_name exampleRequest_def
        failingProcessImage_def Let_def)

end
